theory Spec2Isabelle
  imports Main "HOL-Library.Char_ord" "HOL-Library.List_Lexorder" "HOL-Library.AList"
begin

section \<open>Strings\<close>

text \<open>
  A Go string is a sequence of bytes; \<^typ>\<open>string\<close> is a list of 8-bit characters.
  The functions of package \<^verbatim>\<open>strings\<close> that the program calls are written out as the
  standard library defines them:
  \<^verbatim>\<open>HasSuffix(s, suffix) = len(s) >= len(suffix) && s[len(s)-len(suffix):] == suffix\<close>,
  \<^verbatim>\<open>HasPrefix(s, prefix) = len(s) >= len(prefix) && s[:len(prefix)] == prefix\<close>, and
  \<^verbatim>\<open>Contains(s, substr) = Index(s, substr) >= 0\<close>: some position of \<open>s\<close> starts with
  \<open>substr\<close>.
\<close>

definition HasSuffix :: "string \<Rightarrow> string \<Rightarrow> bool" where
  "HasSuffix s suf \<longleftrightarrow> length suf \<le> length s \<and> drop (length s - length suf) s = suf"

definition HasPrefix :: "string \<Rightarrow> string \<Rightarrow> bool" where
  "HasPrefix s pre \<longleftrightarrow> length pre \<le> length s \<and> take (length pre) s = pre"

fun Contains :: "string \<Rightarrow> string \<Rightarrow> bool" where
  "Contains [] substr \<longleftrightarrow> substr = []"
| "Contains (c # cs) substr \<longleftrightarrow> HasPrefix (c # cs) substr \<or> Contains cs substr"

text \<open>
  The only regular expression of the program is \<^verbatim>\<open>(-v\d+)$\<close>, used as
  \<^verbatim>\<open>re.ReplaceAllString(api.Name, "")\<close>. In Go's syntax \<^verbatim>\<open>\d\<close> is an ASCII digit and
  \<^verbatim>\<open>$\<close> (no multi-line flag) is the end of the text. \<open>matchHere s\<close> says that the
  pattern matches the whole of \<open>s\<close>, that is, that a match starts at the head of \<open>s\<close>:
  a hyphen, the letter v, then digits and nothing else up to the end.
  \<open>ReplaceAllString\<close> scans from the left for the first position where a match starts,
  copies what is before it and replaces the match by the empty string; a match ends at
  the end of the text, so nothing is left to scan after it.
\<close>

definition isDigit :: "char \<Rightarrow> bool" where
  "isDigit c \<longleftrightarrow> c \<in> set ''0123456789''"

definition matchHere :: "string \<Rightarrow> bool" where
  "matchHere s \<longleftrightarrow> HasPrefix s ''-v'' \<and> drop 2 s \<noteq> [] \<and> list_all isDigit (drop 2 s)"

fun ReplaceAllString :: "string \<Rightarrow> string" where
  "ReplaceAllString [] = []"
| "ReplaceAllString (c # cs) = (if matchHere (c # cs) then [] else c # ReplaceAllString cs)"

section \<open>The data of the Azure API Management platform\<close>

text \<open>
  The structs of the program, field by field. Several structs have fields of the same
  name; a field is then written with the name of its record, as in \<open>AzureApi.Name\<close>.
  \<open>AzureApi\<close> is declared last, so that a plain \<open>Properties\<close>, \<open>DisplayName\<close> or
  \<open>Description\<close> is the field of an API.
\<close>

record AzureServiceProperties =
  DeveloperPortalUrl :: string
  GatewayUrl :: string
  GatewayRegionalUrl :: string
  PortalUrl :: string
  PublisherEmail :: string
  PublisherName :: string

record AzureService =
  Id :: string
  Name :: string
  Location :: string
  Properties :: AzureServiceProperties

record AzureApiSchemaProperties =
  Description :: string
  SchemaType :: string
  Document :: string

record AzureApiSchema =
  Id :: string
  Type :: string
  Name :: string
  Properties :: AzureApiSchemaProperties

record AzureTokenResponse =
  AccessToken :: string
  ExpiresIn :: string
  ExpiresOn :: string
  ExtExpiresIn :: string
  NotBefore :: string
  Resource :: string
  TokenType :: string

record AzureFlags =
  Subscription :: string
  ResourceGroup :: string
  ServiceName :: string
  Token :: string
  ApiName :: string
  OnlyNew :: bool

text \<open>
  Modelled from the spec: the struct \<open>GeneralApi\<close> (the canonical API of the
  specification) is declared in a file that is not among the sources. Its fields are the
  twelve that \<^verbatim>\<open>azureOfframp\<close> assigns, which are the twelve the specification lists for
  a canonical API: name, display name, description, version, owner email and name,
  documentation URL, gateway URL, base path, platform identifier and name, and the link
  to the platform's console. All are assigned strings.
\<close>

record GeneralApi =
  Name :: string
  DisplayName :: string
  Description :: string
  Version :: string
  OwnerEmail :: string
  OwnerName :: string
  DocumentationUrl :: string
  GatewayUrl :: string
  BasePath :: string
  PlatformId :: string
  PlatformName :: string
  PlatformResourceUri :: string

record AzureApiAuthenticationSettings =
  OAuth2 :: string
  OpenId :: string
  OAuth2AuthenticationSettings :: "string list"
  OpenIdAuthenticationSettings :: "string list"

record AzureApiSubscriptionKeyParameterNames =
  Header :: string
  Query :: string

record AzureApiProperties =
  DisplayName :: string
  ApiRevision :: string
  Description :: string
  SubscriptionRequired :: string
  ServiceUrl :: string
  BackendId :: string
  Path :: string
  Protocols :: "string list"
  AuthenticationSettings :: AzureApiAuthenticationSettings
  SubscriptionKeyParameterNames :: AzureApiSubscriptionKeyParameterNames
  IsCurrent :: bool
  ApiRevisionDescription :: string
  ApiVersion :: string

record AzureApi =
  Id :: string
  Type' :: string
  Name :: string
  Properties :: AzureApiProperties

record AzureApis =
  Value :: "AzureApi list"

text \<open>The values Go gives a variable that is declared and not assigned.\<close>

definition zeroAzureApiProperties :: AzureApiProperties where
  "zeroAzureApiProperties =
    \<lparr>DisplayName = [], ApiRevision = [], Description = [],
     SubscriptionRequired = [], ServiceUrl = [], BackendId = [], Path = [],
     Protocols = [],
     AuthenticationSettings = \<lparr>OAuth2 = [], OpenId = [],
       OAuth2AuthenticationSettings = [], OpenIdAuthenticationSettings = []\<rparr>,
     SubscriptionKeyParameterNames = \<lparr>Header = [], Query = []\<rparr>,
     IsCurrent = False, ApiRevisionDescription = [], ApiVersion = []\<rparr>"

definition zeroAzureApi :: AzureApi where
  "zeroAzureApi =
    \<lparr>Id = [], Type' = [], AzureApi.Name = [], Properties = zeroAzureApiProperties\<rparr>"

definition zeroAzureApis :: AzureApis where
  "zeroAzureApis = \<lparr>Value = []\<rparr>"

definition zeroAzureApiSchema :: AzureApiSchema where
  "zeroAzureApiSchema =
    \<lparr>AzureApiSchema.Id = [], Type = [], AzureApiSchema.Name = [],
     AzureApiSchema.Properties =
       \<lparr>AzureApiSchemaProperties.Description = [], SchemaType = [], Document = []\<rparr>\<rparr>"

definition zeroAzureService :: AzureService where
  "zeroAzureService =
    \<lparr>AzureService.Id = [], AzureService.Name = [], Location = [],
     AzureService.Properties =
       \<lparr>DeveloperPortalUrl = [], AzureServiceProperties.GatewayUrl = [],
        GatewayRegionalUrl = [], PortalUrl = [], PublisherEmail = [],
        PublisherName = []\<rparr>\<rparr>"

section \<open>Names: group key, qualified name, qualified display name\<close>

text \<open>
  The body of the loop of \<^verbatim>\<open>azureExport\<close> first computes three names from the entry
  \<open>api\<close> of the listing (the \<open>api\<close> of the loop is a copy, which the body then changes):
  \<^item> \<open>newName\<close>, the group: the raw name without a trailing \<^verbatim>\<open>-v<digits>\<close>;
  \<^item> \<open>newApiName\<close>, the qualified name; it is stored into \<open>api.Name\<close> when it changes,
    so \<open>api.Name\<close> and \<open>newApiName\<close> are equal after these lines;
  \<^item> the display name in \<open>api.Properties.DisplayName\<close>.
  \<open>qualify\<close> returns \<open>newName\<close>, \<open>newApiName\<close> and the changed \<open>api\<close>.
\<close>

definition qualify :: "AzureApi \<Rightarrow> string \<times> string \<times> AzureApi" where
  "qualify api0 =
    (let newName = ReplaceAllString (AzureApi.Name api0);
         newApiName = AzureApi.Name api0;
         (newApiName, api1) =
           (if ApiVersion (Properties api0) \<noteq> [] \<and>
               \<not> HasSuffix newApiName (ApiVersion (Properties api0))
            then
              (let newApiName = AzureApi.Name api0 @ ''-'' @ ApiVersion (Properties api0);
                   api = api0\<lparr>AzureApi.Name := newApiName\<rparr>;
                   api = api\<lparr>Properties := (Properties api)
                     \<lparr>DisplayName := DisplayName (Properties api) @ '' '' @
                        ApiVersion (Properties api)\<rparr>\<rparr>
               in (newApiName, api))
            else (newApiName, api0));
         api2 =
           (if ApiVersion (Properties api1) \<noteq> [] \<and>
               \<not> HasSuffix (DisplayName (Properties api1)) (ApiVersion (Properties api1))
            then api1\<lparr>Properties := (Properties api1)
                     \<lparr>DisplayName := DisplayName (Properties api1) @ '' '' @
                        ApiVersion (Properties api1)\<rparr>\<rparr>
            else api1)
     in (newName, newApiName, api2))"

definition groupKey :: "AzureApi \<Rightarrow> string" where
  "groupKey api = fst (qualify api)"

definition qualifiedName :: "AzureApi \<Rightarrow> string" where
  "qualifiedName api = fst (snd (qualify api))"

definition qualifiedApi :: "AzureApi \<Rightarrow> AzureApi" where
  "qualifiedApi api = snd (snd (qualify api))"

definition qualifiedDisplayName :: "AzureApi \<Rightarrow> string" where
  "qualifiedDisplayName api = DisplayName (Properties (qualifiedApi api))"

text \<open>An entry of the platform's listing with the given names and nothing else.\<close>

definition apiNamed :: "string \<Rightarrow> string \<Rightarrow> string \<Rightarrow> string \<Rightarrow> AzureApi" where
  "apiNamed name display version path =
    \<lparr>Id = [], Type' = [], AzureApi.Name = name,
     Properties = zeroAzureApiProperties
       \<lparr>DisplayName := display, Path := path, ApiVersion := version\<rparr>\<rparr>"

section \<open>The world the program runs in\<close>

text \<open>
  A call of \<^verbatim>\<open>log.Fatal\<close> ends the process: the function that makes it does not
  return. \<open>Exit\<close> is that outcome; \<open>Done x\<close> is a return with \<open>x\<close>.
\<close>

datatype 'a outcome = Exit | Done 'a

text \<open>
  What an HTTP request gives: \<open>DoError\<close> when \<^verbatim>\<open>http.DefaultClient.Do\<close> returns an
  error, otherwise the status code and the body; the body is \<open>None\<close> when
  \<^verbatim>\<open>io.ReadAll\<close> fails, and otherwise it is given as what \<^verbatim>\<open>json.Unmarshal\<close> reads from it
  into the struct of the caller. For a schema the document that
  \<^verbatim>\<open>gjson.Get(body, "properties.document")\<close> extracts comes with it.
\<close>

datatype 'a HttpResult = DoError | Resp nat "'a option"

record Net =
  postToken :: "string \<Rightarrow> string \<Rightarrow> string \<Rightarrow> AzureTokenResponse HttpResult"
  getApis :: "string \<Rightarrow> string \<Rightarrow> string \<Rightarrow> string \<Rightarrow> AzureApis HttpResult"
  getSchema :: "string \<Rightarrow> string \<Rightarrow> string \<Rightarrow> string \<Rightarrow> string \<Rightarrow>
    (AzureApiSchema \<times> string) HttpResult"

text \<open>
  The staging area. A file is modelled by what was written into it, so that
  \<^verbatim>\<open>json.Unmarshal\<close> of the bytes that \<^verbatim>\<open>json.MarshalIndent\<close> made gives the value back.
  A staging directory is a list of sub-directories by name, each a list of files by
  name; a name stands for one path component.
  \<^item> \<open>Open\<close> fails (\<open>None\<close>) when the directory or the file is not there.
  \<^item> \<open>MkdirAll\<close> adds the directory when it is not there.
  \<^item> \<open>WriteFile\<close> replaces or adds the file; it fails, and changes nothing, when the
    directory is not there (the program ignores the error).
  \<^item> \<open>ReadDir\<close> gives the names in a directory sorted, as \<^verbatim>\<open>os.ReadDir\<close> does.
\<close>

datatype Content = ApiJson AzureApi | SchemaJson AzureApiSchema | Text string

datatype GeneralContent = GeneralJson GeneralApi | Copied Content

type_synonym 'c dir = "(string \<times> 'c) list"

type_synonym 'c tree = "(string \<times> 'c dir) list"

definition Open :: "'c tree \<Rightarrow> string \<Rightarrow> string \<Rightarrow> 'c option" where
  "Open t d f = (case map_of t d of None \<Rightarrow> None | Some files \<Rightarrow> map_of files f)"

definition MkdirAll :: "'c tree \<Rightarrow> string \<Rightarrow> 'c tree" where
  "MkdirAll t d = (case map_of t d of None \<Rightarrow> t @ [(d, [])] | Some files \<Rightarrow> t)"

definition WriteFile :: "'c tree \<Rightarrow> string \<Rightarrow> string \<Rightarrow> 'c \<Rightarrow> 'c tree" where
  "WriteFile t d f c =
    (case map_of t d of
       None \<Rightarrow> t
     | Some files \<Rightarrow> AList.update d (AList.update f c files) t)"

definition ReadDir :: "(string \<times> 'v) list \<Rightarrow> string list" where
  "ReadDir entries = sort (remdups (map fst entries))"

text \<open>
  What the program does to the world outside of its memory, in the order it does it: the
  HTTP requests it sends and the files it writes.
\<close>

datatype Call =
    HttpPostToken string string string
  | HttpGetApis string string string string
  | HttpGetSchema string string string string string
  | WriteAzure string string Content
  | WriteGeneral string string GeneralContent

text \<open>
  The world: the environment variables (\<^verbatim>\<open>os.Getenv\<close> gives the empty string for a
  variable that is not set), the network, and on disk
  \<^item> \<open>azureServiceFiles\<close>: the files \<^verbatim>\<open>src/main/azure/<service>.json\<close>, by service name,
    each as the \<open>AzureService\<close> that \<^verbatim>\<open>json.Unmarshal\<close> reads from it;
  \<^item> \<open>azureApiproxies\<close>: the directory \<^verbatim>\<open>src/main/azure/apiproxies\<close>, \<open>None\<close> when it
    does not exist;
  \<^item> \<open>generalApiproxies\<close>: the directory \<^verbatim>\<open>src/main/general/apiproxies\<close>;
  and \<open>calls\<close>, the requests sent and the files written so far.
\<close>

record World =
  env :: "string \<Rightarrow> string"
  net :: Net
  azureServiceFiles :: "string \<rightharpoonup> AzureService"
  azureApiproxies :: "Content tree option"
  generalApiproxies :: "GeneralContent tree"
  calls :: "Call list"

definition hasDir :: "World \<Rightarrow> string \<Rightarrow> bool" where
  "hasDir w d \<longleftrightarrow>
    (case azureApiproxies w of None \<Rightarrow> False | Some t \<Rightarrow> map_of t d \<noteq> None)"

definition openAzure :: "World \<Rightarrow> string \<Rightarrow> string \<Rightarrow> Content option" where
  "openAzure w d f =
    (case azureApiproxies w of None \<Rightarrow> None | Some t \<Rightarrow> Open t d f)"

definition mkdirAzure :: "string \<Rightarrow> World \<Rightarrow> World" where
  "mkdirAzure d w =
    w\<lparr>azureApiproxies :=
        Some (MkdirAll (case azureApiproxies w of None \<Rightarrow> [] | Some t \<Rightarrow> t) d)\<rparr>"

definition writeAzure :: "string \<Rightarrow> string \<Rightarrow> Content \<Rightarrow> World \<Rightarrow> World" where
  "writeAzure d f c w =
    w\<lparr>azureApiproxies :=
        (case azureApiproxies w of None \<Rightarrow> None | Some t \<Rightarrow> Some (WriteFile t d f c)),
      calls := calls w @ [WriteAzure d f c]\<rparr>"

definition writeGeneral :: "string \<Rightarrow> string \<Rightarrow> GeneralContent \<Rightarrow> World \<Rightarrow> World" where
  "writeGeneral d f c w =
    w\<lparr>generalApiproxies := WriteFile (generalApiproxies w) d f c,
      calls := calls w @ [WriteGeneral d f c]\<rparr>"

section \<open>Requests to the platform\<close>

text \<open>
  The three functions that send a request build it with \<^verbatim>\<open>http.NewRequest\<close>, which is
  taken to succeed, and send it; what comes back is the value the network gives for the
  arguments of the function.

  \<^verbatim>\<open>getAzureToken\<close> ends the process when the request or the reading of the answer
  fails; otherwise it returns the access token of the answer, empty if there is none.
  It does not look at the status code.
\<close>

definition getAzureToken ::
    "string \<Rightarrow> string \<Rightarrow> string \<Rightarrow> World \<Rightarrow> (string \<times> World) outcome" where
  "getAzureToken clientId clientSecret tenantId w0 =
    (let w = w0\<lparr>calls := calls w0 @ [HttpPostToken clientId clientSecret tenantId]\<rparr> in
     case postToken (net w) clientId clientSecret tenantId of
       DoError \<Rightarrow> Exit
     | Resp status None \<Rightarrow> Exit
     | Resp status (Some azureToken) \<Rightarrow>
         Done (if AccessToken azureToken \<noteq> [] then AccessToken azureToken else [], w))"

text \<open>\<^verbatim>\<open>getAzureApis\<close> returns an empty listing when anything fails.\<close>

definition getAzureApis ::
    "string \<Rightarrow> string \<Rightarrow> string \<Rightarrow> string \<Rightarrow> World \<Rightarrow> AzureApis \<times> World" where
  "getAzureApis subscriptionId resourceGroup serviceName token w0 =
    (let w = w0\<lparr>calls := calls w0 @
               [HttpGetApis subscriptionId resourceGroup serviceName token]\<rparr> in
     case getApis (net w) subscriptionId resourceGroup serviceName token of
       DoError \<Rightarrow> (zeroAzureApis, w)
     | Resp status None \<Rightarrow> (zeroAzureApis, w)
     | Resp status (Some apis) \<Rightarrow> (apis, w))"

text \<open>
  \<^verbatim>\<open>getAzureApiSchema\<close> returns the schema only for status 200 and a body that could be
  read; its document is the one that \<^verbatim>\<open>gjson\<close> extracted.
\<close>

definition getAzureApiSchema ::
    "string \<Rightarrow> string \<Rightarrow> string \<Rightarrow> string \<Rightarrow> string \<Rightarrow> World \<Rightarrow> AzureApiSchema \<times> World" where
  "getAzureApiSchema subscriptionId resourceGroup serviceName apiName token w0 =
    (let w = w0\<lparr>calls := calls w0 @
               [HttpGetSchema subscriptionId resourceGroup serviceName apiName token]\<rparr> in
     case getSchema (net w) subscriptionId resourceGroup serviceName apiName token of
       DoError \<Rightarrow> (zeroAzureApiSchema, w)
     | Resp status None \<Rightarrow> (zeroAzureApiSchema, w)
     | Resp status (Some (schema, document)) \<Rightarrow>
         (if status = 200
          then (schema\<lparr>AzureApiSchema.Properties :=
                  (AzureApiSchema.Properties schema)\<lparr>Document := document\<rparr>\<rparr>, w)
          else (zeroAzureApiSchema, w)))"

section \<open>Export\<close>

text \<open>
  The token that \<^verbatim>\<open>azureExport\<close> works with (the same lines open \<^verbatim>\<open>azureStatus\<close> and
  \<^verbatim>\<open>azureServiceExport\<close>): the token of the flags; if that is empty the variable
  \<^verbatim>\<open>AZURE_TOKEN\<close>; if that is empty too, a token requested with the client id, secret
  and tenant id of the environment, provided all three are set. \<open>azureExport\<close> returns
  the empty list both when one of the three is missing and when the token it got is
  empty; the two cases print different messages, which are not modelled, so the first
  case gives the empty token here.
\<close>

definition exportToken :: "AzureFlags \<Rightarrow> World \<Rightarrow> (string \<times> World) outcome" where
  "exportToken flags w =
    (if Token flags \<noteq> [] then Done (Token flags, w)
     else if env w ''AZURE_TOKEN'' \<noteq> [] then Done (env w ''AZURE_TOKEN'', w)
     else if env w ''AZURE_CLIENT_ID'' = [] \<or> env w ''AZURE_CLIENT_SECRET'' = [] \<or>
             env w ''AZURE_TENANT_ID'' = []
       then Done ([], w)
     else getAzureToken (env w ''AZURE_CLIENT_ID'') (env w ''AZURE_CLIENT_SECRET'')
            (env w ''AZURE_TENANT_ID'') w)"

text \<open>
  The body of the loop of \<^verbatim>\<open>azureExport\<close>, for the entry \<open>api0\<close> of the listing:
  \<open>apiNames\<close> are the names exported so far. What the program prints is not modelled.
\<close>

definition exportApi ::
    "AzureFlags \<Rightarrow> string \<Rightarrow> string list \<times> World \<Rightarrow> AzureApi \<Rightarrow> string list \<times> World" where
  "exportApi flags token acc api0 =
    (let (apiNames, w) = acc in
     if (ApiName flags = [] \<or> ApiName flags = AzureApi.Name api0) \<and>
        \<not> Contains (AzureApi.Name api0) '';rev=''
     then
       (let (newName, newApiName, api) = qualify api0;
            fileExistsErr = (openAzure w newName (AzureApi.Name api @ ''.json'') = None)
        in
        if (OnlyNew flags \<and> fileExistsErr) \<or> \<not> OnlyNew flags then
          (let w = mkdirAzure newName w;
               w = writeAzure newName (newApiName @ ''.json'') (ApiJson api) w;
               (schema, w) = getAzureApiSchema (Subscription flags) (ResourceGroup flags)
                               (ServiceName flags) newApiName token w;
               w = (if AzureApiSchema.Id schema \<noteq> [] then
                      (let w = writeAzure newName (newApiName @ ''-oas-definition.json'')
                                 (SchemaJson schema) w
                       in writeAzure newName
                            (newApiName @ ''-oas.'' @
                               SchemaType (AzureApiSchema.Properties schema))
                            (Text (Document (AzureApiSchema.Properties schema))) w)
                    else w)
           in (apiNames @ [AzureApi.Name api], w))
        else (apiNames, w))
     else (apiNames, w))"

definition azureExport :: "AzureFlags \<Rightarrow> World \<Rightarrow> (string list \<times> World) outcome" where
  "azureExport flags w0 =
    (if Subscription flags = [] then Done ([], w0)
     else if ResourceGroup flags = [] then Done ([], w0)
     else if ServiceName flags = [] then Done ([], w0)
     else
       (case exportToken flags w0 of
          Exit \<Rightarrow> Exit
        | Done (token, w) \<Rightarrow>
            if token = [] then Done ([], w)
            else
              (let (apis, w) = getAzureApis (Subscription flags) (ResourceGroup flags)
                                 (ServiceName flags) token w;
                   apiNames = []
               in Done (if length (Value apis) > 0
                        then foldl (exportApi flags token) (apiNames, w) (Value apis)
                        else (apiNames, w)))))"

section \<open>Offramp\<close>

text \<open>
  What \<^verbatim>\<open>json.Unmarshal\<close> into an \<open>AzureApi\<close> reads from a staged file. From the file of
  an API it reads that API. The file of a schema descriptor has the keys \<^verbatim>\<open>id\<close>,
  \<^verbatim>\<open>type\<close>, \<^verbatim>\<open>name\<close> and \<^verbatim>\<open>properties.description\<close> in common with an API, and these are
  read. What is read from any other text is a parameter, \<open>unmarshalText\<close>: it is the
  zero value unless the text happens to be a JSON object with such keys.
\<close>

definition unmarshalAzureApi :: "(string \<Rightarrow> AzureApi) \<Rightarrow> Content \<Rightarrow> AzureApi" where
  "unmarshalAzureApi unmarshalText c =
    (case c of
       ApiJson api \<Rightarrow> api
     | SchemaJson schema \<Rightarrow>
         \<lparr>Id = AzureApiSchema.Id schema, Type' = Type schema,
          AzureApi.Name = AzureApiSchema.Name schema,
          Properties = zeroAzureApiProperties
            \<lparr>Description :=
               AzureApiSchemaProperties.Description (AzureApiSchema.Properties schema)\<rparr>\<rparr>
     | Text t \<Rightarrow> unmarshalText t)"

text \<open>The canonical API that \<^verbatim>\<open>azureOfframp\<close> builds from a staged API.\<close>

definition toGeneralApi :: "AzureFlags \<Rightarrow> AzureService \<Rightarrow> AzureApi \<Rightarrow> GeneralApi" where
  "toGeneralApi flags azureService azureApi =
    \<lparr>GeneralApi.Name = AzureApi.Name azureApi @ ''-azure'',
     GeneralApi.DisplayName = DisplayName (Properties azureApi),
     GeneralApi.Description = Description (Properties azureApi),
     Version = ApiVersion (Properties azureApi),
     OwnerEmail = PublisherEmail (AzureService.Properties azureService),
     OwnerName = PublisherName (AzureService.Properties azureService),
     DocumentationUrl = DeveloperPortalUrl (AzureService.Properties azureService) @
       ''/api-details#api='' @ AzureApi.Name azureApi,
     GeneralApi.GatewayUrl =
       AzureServiceProperties.GatewayUrl (AzureService.Properties azureService) @ ''/'' @
       Path (Properties azureApi),
     BasePath = Path (Properties azureApi),
     PlatformId = ''azure-api-management'',
     PlatformName = ''Azure API Management'',
     PlatformResourceUri = ''https://portal.azure.com/#resource/subscriptions/'' @
       Subscription flags @ ''/resourceGroups/'' @ ResourceGroup flags @
       ''/providers/Microsoft.ApiManagement/service/'' @ ServiceName flags @
       ''/overview?apiName='' @ AzureApi.Name azureApi\<rparr>"

text \<open>A loop over a list whose body may end the process.\<close>

fun forEach :: "('s \<Rightarrow> 'a \<Rightarrow> 's outcome) \<Rightarrow> 's \<Rightarrow> 'a list \<Rightarrow> 's outcome" where
  "forEach body s [] = Done s"
| "forEach body s (x # xs) =
    (case body s x of Exit \<Rightarrow> Exit | Done s' \<Rightarrow> forEach body s' xs)"

text \<open>
  The function \<^verbatim>\<open>writeGeneralApi\<close> that \<^verbatim>\<open>azureOfframp\<close> calls is in a file that is not
  among the sources. It is a parameter: any function of the group, the canonical API and
  the canonical staging directory that returns that directory changed, or ends the
  process.

  The body of the inner loop, for the file \<open>f\<close> of the group directory \<open>e\<close>.
\<close>

type_synonym writeGeneralApi =
  "string \<Rightarrow> GeneralApi \<Rightarrow> GeneralContent tree \<Rightarrow> GeneralContent tree outcome"

definition offrampFile ::
    "(string \<Rightarrow> AzureApi) \<Rightarrow> writeGeneralApi \<Rightarrow> AzureFlags \<Rightarrow> AzureService \<Rightarrow> string \<Rightarrow>
     World \<Rightarrow> string \<Rightarrow> World outcome" where
  "offrampFile unmarshalText writeGeneralApi flags azureService e w0 f =
    (if \<not> HasSuffix f ''-oas.json'' \<and> \<not> HasSuffix f ''-oas-definition.json'' then
       (case openAzure w0 e f of
          None \<Rightarrow> Exit
        | Some apiFile \<Rightarrow>
            (let azureApi = unmarshalAzureApi unmarshalText apiFile in
             if AzureApi.Name azureApi \<noteq> [] then
               (let generalApi = toGeneralApi flags azureService azureApi;
                    w = w0\<lparr>generalApiproxies := MkdirAll (generalApiproxies w0) e\<rparr>
                in
                case writeGeneralApi e generalApi (generalApiproxies w) of
                  Exit \<Rightarrow> Exit
                | Done general \<Rightarrow>
                    (let w = w\<lparr>generalApiproxies := general\<rparr>;
                         w = writeGeneral e (GeneralApi.Name generalApi @ ''.json'')
                               (GeneralJson generalApi) w
                     in
                     case openAzure w e (AzureApi.Name azureApi @ ''-oas.json'') of
                       None \<Rightarrow> Done w
                     | Some schemaFile \<Rightarrow>
                         Done (writeGeneral e (GeneralApi.Name generalApi @ ''-oas.json'')
                                 (Copied schemaFile) w)))
             else Done w0))
     else Done w0)"

text \<open>
  The body of the outer loop, for the entry \<open>e\<close> of the export directory. The error of
  the inner \<^verbatim>\<open>os.ReadDir\<close> is ignored: no files are visited then.
\<close>

definition offrampEntry ::
    "(string \<Rightarrow> AzureApi) \<Rightarrow> writeGeneralApi \<Rightarrow> AzureFlags \<Rightarrow> AzureService \<Rightarrow>
     World \<Rightarrow> string \<Rightarrow> World outcome" where
  "offrampEntry unmarshalText writeGeneralApi flags azureService w e =
    (if ApiName flags = [] \<or> ApiName flags = e then
       (let fileEntries =
              (case azureApiproxies w of
                 None \<Rightarrow> []
               | Some t \<Rightarrow> (case map_of t e of None \<Rightarrow> [] | Some files \<Rightarrow> ReadDir files))
        in forEach (offrampFile unmarshalText writeGeneralApi flags azureService e) w
             fileEntries)
     else Done w)"

text \<open>
  The metadata of the service, loaded "if available": from the file
  \<^verbatim>\<open>src/main/azure/apiproxies/../<service>.json\<close> if it can be opened, and otherwise what
  the declaration of the variable leaves in it.
\<close>

definition loadAzureService :: "AzureFlags \<Rightarrow> World \<Rightarrow> AzureService" where
  "loadAzureService flags w =
    (case azureServiceFiles w (ServiceName flags) of
       None \<Rightarrow> zeroAzureService
     | Some service \<Rightarrow> service)"

definition azureOfframp ::
    "(string \<Rightarrow> AzureApi) \<Rightarrow> writeGeneralApi \<Rightarrow> AzureFlags \<Rightarrow> World \<Rightarrow> World outcome" where
  "azureOfframp unmarshalText writeGeneralApi flags w =
    (if Subscription flags = [] then Done w
     else if ResourceGroup flags = [] then Done w
     else if ServiceName flags = [] then Done w
     else
       (case azureApiproxies w of
          None \<Rightarrow> Exit
        | Some t \<Rightarrow>
            (let entries = ReadDir t;
                 azureService = loadAzureService flags w
             in forEach (offrampEntry unmarshalText writeGeneralApi flags azureService) w
                  entries)))"

section \<open>The synchronisation request of the web service\<close>

text \<open>
  Modelled from the spec: the structs \<open>ApigeeFlags\<close> and \<open>AwsFlags\<close> and the functions
  \<^verbatim>\<open>awsExport\<close>, \<^verbatim>\<open>awsOfframp\<close>, \<^verbatim>\<open>apiHubOnramp\<close> and \<^verbatim>\<open>apiHubImport\<close> are in files that
  are not among the sources. The structs have the fields that \<^verbatim>\<open>apimSync\<close> sets. The
  functions are parameters, with the contract the specification gives the operations
  of the pipeline: each works on the world and returns, possibly with an error (\<open>Some\<close>
  of its message), or ends the process. \<open>External\<close> holds them, with the two parameters
  of \<open>azureOfframp\<close>.
\<close>

record ApigeeFlags =
  Project :: string
  Region :: string

record AwsFlags =
  Region :: string
  AccessKey :: string
  AccessSecret :: string

record External =
  unmarshalText :: "string \<Rightarrow> AzureApi"
  writeGeneralApi :: writeGeneralApi
  awsExport :: "AwsFlags \<Rightarrow> World \<Rightarrow> (string option \<times> World) outcome"
  awsOfframp :: "AwsFlags \<Rightarrow> World \<Rightarrow> (string option \<times> World) outcome"
  apiHubOnramp :: "ApigeeFlags \<Rightarrow> World \<Rightarrow> (string option \<times> World) outcome"
  apiHubImport :: "ApigeeFlags \<Rightarrow> World \<Rightarrow> (string option \<times> World) outcome"

text \<open>The bodies of the request and of the response.\<close>

record ApimSyncInput =
  Offramp :: string
  Onramp :: string

record ApimSyncOutput =
  Result :: bool
  Message :: string

text \<open>
  \<^verbatim>\<open>apimSync\<close> calls the operations one after the other and drops what they return.
\<close>

definition apimSync ::
    "External \<Rightarrow> ApimSyncInput \<Rightarrow> World \<Rightarrow> (ApimSyncOutput \<times> World) outcome" where
  "apimSync ext input w0 =
    (let apigeeFlags = \<lparr>Project = env w0 ''APIGEE_PROJECT'',
                        ApigeeFlags.Region = env w0 ''APIGEE_REGION''\<rparr>;
         azureFlags = \<lparr>Subscription = env w0 ''AZURE_SUBSCRIPTION_ID'',
                       ResourceGroup = env w0 ''AZURE_RESOURCE_GROUP'',
                       ServiceName = env w0 ''AZURE_SERVICE_NAME'',
                       Token = [], ApiName = [], OnlyNew = False\<rparr>;
         awsFlags = \<lparr>AwsFlags.Region = env w0 ''AWS_REGION'',
                     AccessKey = env w0 ''AWS_ACCESS_KEY_ID'',
                     AccessSecret = env w0 ''AWS_SECRET_ACCESS_KEY''\<rparr>
     in
     case
       (if Offramp input = ''azure'' then
          (case azureExport azureFlags w0 of
             Exit \<Rightarrow> Exit
           | Done (apiNames, w) \<Rightarrow>
               azureOfframp (unmarshalText ext) (writeGeneralApi ext) azureFlags w)
        else if Offramp input = ''aws'' then
          (case awsExport ext awsFlags w0 of
             Exit \<Rightarrow> Exit
           | Done (err, w) \<Rightarrow>
               (case awsOfframp ext awsFlags w of
                  Exit \<Rightarrow> Exit
                | Done (err, w) \<Rightarrow> Done w))
        else Done w0)
     of
       Exit \<Rightarrow> Exit
     | Done w \<Rightarrow>
         (case
            (if Onramp input = ''apihub'' then
               (case apiHubOnramp ext apigeeFlags w of
                  Exit \<Rightarrow> Exit
                | Done (err, w) \<Rightarrow>
                    (case apiHubImport ext apigeeFlags w of
                       Exit \<Rightarrow> Exit
                     | Done (err, w) \<Rightarrow> Done w))
             else Done w)
          of
            Exit \<Rightarrow> Exit
          | Done w \<Rightarrow>
              Done (\<lparr>Result = True,
                     Message = ''Sync from '' @ Offramp input @ '' to '' @ Onramp input @
                       '' successful!''\<rparr>, w)))"

section \<open>Reading a run\<close>

text \<open>
  The calls of a run that starts in \<open>w\<close> and ends in \<open>w'\<close>, and the canonical APIs among
  the files a list of calls writes.
\<close>

definition newCalls :: "World \<Rightarrow> World \<Rightarrow> Call list" where
  "newCalls w w' = drop (length (calls w)) (calls w')"

fun canonicalApis :: "Call list \<Rightarrow> GeneralApi list" where
  "canonicalApis [] = []"
| "canonicalApis (WriteGeneral d f (GeneralJson g) # cs) = g # canonicalApis cs"
| "canonicalApis (c # cs) = canonicalApis cs"

text \<open>
  Whether the loop of \<^verbatim>\<open>azureExport\<close> looks at an entry of the listing at all: the name
  filter and the revision filter. And the listing a run of \<^verbatim>\<open>azureExport\<close> gets from
  the platform, empty when the run does not come to ask for it.
\<close>

definition selected :: "AzureFlags \<Rightarrow> AzureApi \<Rightarrow> bool" where
  "selected flags api \<longleftrightarrow>
    (ApiName flags = [] \<or> ApiName flags = AzureApi.Name api) \<and>
    \<not> Contains (AzureApi.Name api) '';rev=''"

definition listing :: "AzureFlags \<Rightarrow> World \<Rightarrow> AzureApi list" where
  "listing flags w0 =
    (if Subscription flags = [] \<or> ResourceGroup flags = [] \<or> ServiceName flags = [] then []
     else
       (case exportToken flags w0 of
          Exit \<Rightarrow> []
        | Done (token, w) \<Rightarrow>
            if token = [] then []
            else Value (fst (getAzureApis (Subscription flags) (ResourceGroup flags)
                               (ServiceName flags) token w))))"

text \<open>The calls that fetch a schema or write a file.\<close>

fun fetchesOrWrites :: "Call \<Rightarrow> bool" where
  "fetchesOrWrites (HttpPostToken clientId clientSecret tenantId) = False"
| "fetchesOrWrites (HttpGetApis subscriptionId resourceGroup serviceName token) = False"
| "fetchesOrWrites (HttpGetSchema subscriptionId resourceGroup serviceName apiName token) = True"
| "fetchesOrWrites (WriteAzure d f c) = True"
| "fetchesOrWrites (WriteGeneral d f c) = True"

text \<open>Worlds and parameters to run the program in.\<close>

definition noNet :: Net where
  "noNet = \<lparr>postToken = (\<lambda>clientId clientSecret tenantId. DoError),
            getApis = (\<lambda>subscriptionId resourceGroup serviceName token. DoError),
            getSchema = (\<lambda>subscriptionId resourceGroup serviceName apiName token. DoError)\<rparr>"

definition emptyWorld :: World where
  "emptyWorld = \<lparr>env = (\<lambda>name. []), net = noNet, azureServiceFiles = Map.empty,
                 azureApiproxies = None, generalApiproxies = [], calls = []\<rparr>"

definition someFlags :: AzureFlags where
  "someFlags = \<lparr>Subscription = ''sub'', ResourceGroup = ''rg'', ServiceName = ''svc'',
                Token = [], ApiName = [], OnlyNew = False\<rparr>"




text \<open>
  A world in which the client id, secret and tenant id are set, and no token; a network
  whose token endpoint answers with an error document, which has no access token.
\<close>

definition credentialsWorld :: "Net \<Rightarrow> World" where
  "credentialsWorld n = emptyWorld
     \<lparr>env := (\<lambda>name. if name = ''AZURE_CLIENT_ID'' then ''id''
                      else if name = ''AZURE_CLIENT_SECRET'' then ''secret''
                      else if name = ''AZURE_TENANT_ID'' then ''tenant'' else []),
      net := n\<rparr>"

definition zeroAzureTokenResponse :: AzureTokenResponse where
  "zeroAzureTokenResponse = \<lparr>AccessToken = [], ExpiresIn = [], ExpiresOn = [],
     ExtExpiresIn = [], NotBefore = [], Resource = [], TokenType = []\<rparr>"

definition refusingNet :: Net where
  "refusingNet = noNet\<lparr>postToken := (\<lambda>clientId clientSecret tenantId.
      Resp 401 (Some zeroAzureTokenResponse))\<rparr>"

text \<open>Operations of the other platforms that all return an error.\<close>

definition failingExternal :: External where
  "failingExternal =
    \<lparr>unmarshalText = (\<lambda>t. zeroAzureApi),
     writeGeneralApi = (\<lambda>e generalApi general. Done general),
     awsExport = (\<lambda>flags w. Done (Some ''aws: no credentials'', w)),
     awsOfframp = (\<lambda>flags w. Done (Some ''aws: nothing staged'', w)),
     apiHubOnramp = (\<lambda>flags w. Done (Some ''apihub: no project'', w)),
     apiHubImport = (\<lambda>flags w. Done (Some ''apihub: no project'', w))\<rparr>"

text \<open>
  A network on which the platform lists the given APIs and has no schema for any of them;
  flags with a token, for a run that skips what is staged; flags whose name filter asks
  for a revision.
\<close>

definition listingNet :: "AzureApi list \<Rightarrow> Net" where
  "listingNet apis = noNet
     \<lparr>getApis := (\<lambda>subscriptionId resourceGroup serviceName token.
        Resp 200 (Some \<lparr>Value = apis\<rparr>))\<rparr>"



definition revisionFlags :: AzureFlags where
  "revisionFlags = someFlags\<lparr>Token := ''token'', ApiName := ''billing;rev=2''\<rparr>"


text \<open>
  A listing without the entries whose name has the revision marker, and a network that
  is the given one except that the platform does not list such entries.
\<close>

definition withoutRevisions :: "AzureApi list \<Rightarrow> AzureApi list" where
  "withoutRevisions apis = filter (\<lambda>api. \<not> Contains (AzureApi.Name api) '';rev='') apis"

definition hideRevisions :: "Net \<Rightarrow> Net" where
  "hideRevisions n = n
     \<lparr>getApis := (\<lambda>subscriptionId resourceGroup serviceName token.
        case getApis n subscriptionId resourceGroup serviceName token of
          DoError \<Rightarrow> DoError
        | Resp status None \<Rightarrow> Resp status None
        | Resp status (Some apis) \<Rightarrow>
            Resp status (Some (apis\<lparr>Value := withoutRevisions (Value apis)\<rparr>)))\<rparr>"

section \<open>Facts about the strings\<close>

lemma HasSuffix_iff: "HasSuffix s suf \<longleftrightarrow> (\<exists>p. s = p @ suf)"
proof
  assume "HasSuffix s suf"
  then have "s = take (length s - length suf) s @ suf"
    by (metis HasSuffix_def append_take_drop_id)
  then show "\<exists>p. s = p @ suf" ..
next
  assume "\<exists>p. s = p @ suf"
  then show "HasSuffix s suf"
    by (auto simp: HasSuffix_def)
qed

lemma HasSuffix_append [simp]: "HasSuffix (s @ suf) suf"
  by (auto simp: HasSuffix_iff)

lemma HasSuffix_append_Cons [simp]: "HasSuffix (s @ c # suf) suf"
  using HasSuffix_append [of "s @ [c]" suf] by simp

lemma HasSuffix_Nil [simp]: "HasSuffix s []"
  by (simp add: HasSuffix_def)

lemma not_isDigit_hyphen [simp]: "\<not> isDigit CHR ''-''"
  by (simp add: isDigit_def)

lemma matchHere_iff:
  "matchHere s \<longleftrightarrow> (\<exists>ds. s = ''-v'' @ ds \<and> ds \<noteq> [] \<and> list_all isDigit ds)"
proof
  assume m: "matchHere s"
  then have "take 2 s = ''-v''" "2 \<le> length s"
    by (simp_all add: matchHere_def HasPrefix_def numeral_2_eq_2)
  then have "s = ''-v'' @ drop 2 s"
    by (metis append_take_drop_id)
  with m show "\<exists>ds. s = ''-v'' @ ds \<and> ds \<noteq> [] \<and> list_all isDigit ds"
    unfolding matchHere_def by blast
next
  assume "\<exists>ds. s = ''-v'' @ ds \<and> ds \<noteq> [] \<and> list_all isDigit ds"
  then show "matchHere s"
    by (auto simp: matchHere_def HasPrefix_def)
qed

lemma no_match_before_suffix:
  assumes "list_all isDigit N"
  shows "\<not> matchHere (c # cs @ ''-v'' @ N)"
proof
  assume "matchHere (c # cs @ ''-v'' @ N)"
  then obtain ds where eq: "c # cs @ ''-v'' @ N = ''-v'' @ ds" and ds: "list_all isDigit ds"
    unfolding matchHere_iff by blast
  show False
  proof (cases cs)
    case Nil
    with eq show False by simp
  next
    case (Cons d cs')
    with eq have "ds = cs' @ ''-v'' @ N" by simp
    with ds show False by simp
  qed
qed

lemma ReplaceAllString_strips:
  assumes "N \<noteq> []" "list_all isDigit N"
  shows "ReplaceAllString (base @ ''-v'' @ N) = base"
proof (induction base)
  case Nil
  have "matchHere (''-v'' @ N)"
    unfolding matchHere_iff using assms by blast
  then show ?case by simp
next
  case (Cons c cs)
  have "\<not> matchHere (c # cs @ ''-v'' @ N)"
    using assms(2) by (rule no_match_before_suffix)
  with Cons show ?case by simp
qed

lemma ReplaceAllString_keeps:
  "ReplaceAllString s = s \<or>
   (\<exists>base N. s = base @ ''-v'' @ N \<and> N \<noteq> [] \<and> list_all isDigit N)"
proof (induction s)
  case Nil
  then show ?case by simp
next
  case (Cons c cs)
  show ?case
  proof (cases "matchHere (c # cs)")
    case True
    then obtain ds where "c # cs = [] @ ''-v'' @ ds" "ds \<noteq> []" "list_all isDigit ds"
      unfolding matchHere_iff by auto
    then show ?thesis by blast
  next
    case False
    from Cons show ?thesis
    proof
      assume "ReplaceAllString cs = cs"
      with False show ?thesis by simp
    next
      assume "\<exists>base N. cs = base @ ''-v'' @ N \<and> N \<noteq> [] \<and> list_all isDigit N"
      then obtain base N where "cs = base @ ''-v'' @ N" "N \<noteq> []" "list_all isDigit N"
        by blast
      then have "c # cs = (c # base) @ ''-v'' @ N \<and> N \<noteq> [] \<and> list_all isDigit N"
        by simp
      then show ?thesis by blast
    qed
  qed
qed

lemma groupKey_eq: "groupKey api = ReplaceAllString (AzureApi.Name api)"
  by (simp add: groupKey_def qualify_def Let_def split: prod.splits)

lemma qualifiedName_eq:
  "qualifiedName api =
    (if ApiVersion (Properties api) \<noteq> [] \<and>
        \<not> HasSuffix (AzureApi.Name api) (ApiVersion (Properties api))
     then AzureApi.Name api @ ''-'' @ ApiVersion (Properties api)
     else AzureApi.Name api)"
  by (simp add: qualifiedName_def qualify_def Let_def)

lemma qualifiedApi_Name: "AzureApi.Name (qualifiedApi api) = qualifiedName api"
  by (simp add: qualifiedApi_def qualifiedName_def qualify_def Let_def)

lemma qualifiedApi_ApiVersion:
  "ApiVersion (Properties (qualifiedApi api)) = ApiVersion (Properties api)"
  by (simp add: qualifiedApi_def qualify_def Let_def)

lemma qualifiedApi_Path: "Path (Properties (qualifiedApi api)) = Path (Properties api)"
  by (simp add: qualifiedApi_def qualify_def Let_def)

lemma qualifiedDisplayName_eq:
  "qualifiedDisplayName api =
    (let version = ApiVersion (Properties api); display = DisplayName (Properties api) in
     if version = [] then display
     else if \<not> HasSuffix (AzureApi.Name api) version then display @ '' '' @ version
     else if \<not> HasSuffix display version then display @ '' '' @ version
     else display)"
  by (simp add: qualifiedDisplayName_def qualifiedApi_def qualify_def Let_def)

section \<open>The claims about names\<close>

text \<open>
  Claim C3. For every raw name of the form \<open>base-vN\<close>, where \<open>N\<close> is one or more digits,
  the group key that export computes is \<open>base\<close>; for every raw name that has no such
  trailing suffix, the group key is the raw name itself.
\<close>

theorem groupKey_strips_version_suffix:
  "(N \<noteq> [] \<and> list_all isDigit N \<and> AzureApi.Name api = base @ ''-v'' @ N
      \<longrightarrow> groupKey api = base) \<and>
   ((\<nexists>b ds. AzureApi.Name api = b @ ''-v'' @ ds \<and> ds \<noteq> [] \<and> list_all isDigit ds)
      \<longrightarrow> groupKey api = AzureApi.Name api)"
  using ReplaceAllString_strips [of N base] ReplaceAllString_keeps [of "AzureApi.Name api"]
  by (auto simp: groupKey_eq)

theorem groupKey_strips_version_suffix_witness:
  "groupKey (apiNamed ''orders-v2'' ''Orders'' ''v2'' ''orders'') = ''orders'' \<and>
   groupKey (apiNamed ''billing'' ''Billing'' ''v1'' ''billing'') = ''billing''"
proof -
  have d: "''2'' \<noteq> [] \<and> list_all isDigit ''2'' \<and>
      AzureApi.Name (apiNamed ''orders-v2'' ''Orders'' ''v2'' ''orders'') = ''orders'' @ ''-v'' @ ''2''"
    by (simp add: apiNamed_def isDigit_def)
  have n: "\<nexists>b ds. AzureApi.Name (apiNamed ''billing'' ''Billing'' ''v1'' ''billing'') =
      b @ ''-v'' @ ds \<and> ds \<noteq> [] \<and> list_all isDigit ds"
  proof
    assume "\<exists>b ds. AzureApi.Name (apiNamed ''billing'' ''Billing'' ''v1'' ''billing'') =
      b @ ''-v'' @ ds \<and> ds \<noteq> [] \<and> list_all isDigit ds"
    then obtain b ds where "''billing'' = b @ ''-v'' @ ds"
      by (auto simp: apiNamed_def)
    then have "CHR ''-'' \<in> set ''billing''"
      by (metis append_Cons in_set_conv_decomp)
    then show False by simp
  qed
  from d have "groupKey (apiNamed ''orders-v2'' ''Orders'' ''v2'' ''orders'') = ''orders''"
    using groupKey_strips_version_suffix
        [of "''2''" "apiNamed ''orders-v2'' ''Orders'' ''v2'' ''orders''" "''orders''"]
    by blast
  moreover from n
  have "groupKey (apiNamed ''billing'' ''Billing'' ''v1'' ''billing'') =
      AzureApi.Name (apiNamed ''billing'' ''Billing'' ''v1'' ''billing'')"
    using groupKey_strips_version_suffix
        [of "''2''" "apiNamed ''billing'' ''Billing'' ''v1'' ''billing''" "''orders''"]
    by blast
  ultimately show ?thesis
    by (simp add: apiNamed_def)
qed

text \<open>
  Claim C4. Qualifying a name is idempotent: the qualified name of an entry whose name
  has been qualified already is that same name. An empty version tag leaves the name as
  it is, and so does a version tag that the name already ends with.
\<close>

theorem qualifiedName_idempotent:
  "qualifiedName (qualifiedApi api) = qualifiedName api \<and>
   (ApiVersion (Properties api) = [] \<longrightarrow> qualifiedName api = AzureApi.Name api) \<and>
   (HasSuffix (AzureApi.Name api) (ApiVersion (Properties api))
      \<longrightarrow> qualifiedName api = AzureApi.Name api)"
proof -
  have "qualifiedName (qualifiedApi api) = qualifiedName api"
    unfolding qualifiedName_eq [of "qualifiedApi api"] qualifiedApi_Name qualifiedApi_ApiVersion
    by (simp add: qualifiedName_eq)
  then show ?thesis
    by (simp add: qualifiedName_eq)
qed

theorem qualifiedName_idempotent_witness:
  "qualifiedName (qualifiedApi (apiNamed ''billing'' ''Billing'' ''v1'' ''billing'')) = ''billing-v1'' \<and>
   qualifiedName (apiNamed ''billing'' ''Billing'' [] ''billing'') = ''billing'' \<and>
   qualifiedName (apiNamed ''orders-v2'' ''Orders'' ''v2'' ''orders'') = ''orders-v2''"
proof -
  have a: "qualifiedName (apiNamed ''billing'' ''Billing'' ''v1'' ''billing'') = ''billing-v1''"
    by (simp add: qualifiedName_eq apiNamed_def HasSuffix_def)
  have b: "ApiVersion (Properties (apiNamed ''billing'' ''Billing'' [] ''billing'')) = []"
    by (simp add: apiNamed_def)
  have c: "HasSuffix (AzureApi.Name (apiNamed ''orders-v2'' ''Orders'' ''v2'' ''orders''))
      (ApiVersion (Properties (apiNamed ''orders-v2'' ''Orders'' ''v2'' ''orders'')))"
    by (simp add: apiNamed_def HasSuffix_def)
  show ?thesis
    using qualifiedName_idempotent [of "apiNamed ''billing'' ''Billing'' ''v1'' ''billing''"]
      qualifiedName_idempotent [of "apiNamed ''billing'' ''Billing'' [] ''billing''"]
      qualifiedName_idempotent [of "apiNamed ''orders-v2'' ''Orders'' ''v2'' ''orders''"]
      a b c
    by (simp add: apiNamed_def)
qed

text \<open>
  Claim C5, as the code has it. The claim gives the display name the rule of the name,
  with a hyphen. The code appends the version tag to the display name after a space, and
  it appends it whenever it appends it to the name, whatever the display name ends with.
  Counterexample: the display name \<open>Billing\<close> with the version tag \<open>v1\<close> becomes
  \<open>Billing v1\<close>, not \<open>Billing-v1\<close>; and for the name \<open>orders\<close> the display name
  \<open>Orders v2\<close>, which ends with the version tag \<open>v2\<close>, gets the tag a second time.
\<close>

theorem qualifiedDisplayName_counterexample:
  "\<not> HasSuffix ''Billing'' ''v1'' \<and>
   qualifiedDisplayName (apiNamed ''billing'' ''Billing'' ''v1'' ''billing'') = ''Billing v1'' \<and>
   qualifiedDisplayName (apiNamed ''billing'' ''Billing'' ''v1'' ''billing'') \<noteq>
     ''Billing'' @ ''-'' @ ''v1'' \<and>
   HasSuffix ''Orders v2'' ''v2'' \<and>
   qualifiedDisplayName (apiNamed ''orders'' ''Orders v2'' ''v2'' ''orders'') = ''Orders v2 v2''"
  by (simp add: qualifiedDisplayName_eq apiNamed_def HasSuffix_def)

text \<open>
  Claim C5, amended. For every API with a non-empty version tag: a display name that
  does not end with the version tag gets the tag appended once, after a space; a display
  name that ends with the version tag is left as it is when the raw name ends with the
  tag too.
\<close>

theorem qualifiedDisplayName_appends_with_space:
  assumes "ApiVersion (Properties api) \<noteq> []"
  shows "(\<not> HasSuffix (DisplayName (Properties api)) (ApiVersion (Properties api)) \<longrightarrow>
            qualifiedDisplayName api =
              DisplayName (Properties api) @ '' '' @ ApiVersion (Properties api)) \<and>
         (HasSuffix (DisplayName (Properties api)) (ApiVersion (Properties api)) \<and>
          HasSuffix (AzureApi.Name api) (ApiVersion (Properties api)) \<longrightarrow>
            qualifiedDisplayName api = DisplayName (Properties api))"
  using assms by (simp add: qualifiedDisplayName_eq Let_def)

theorem qualifiedDisplayName_appends_with_space_witness:
  "qualifiedDisplayName (apiNamed ''billing'' ''Billing'' ''v1'' ''billing'') = ''Billing v1'' \<and>
   qualifiedDisplayName (apiNamed ''orders-v2'' ''Orders v2'' ''v2'' ''orders'') = ''Orders v2''"
proof -
  have a: "ApiVersion (Properties (apiNamed ''billing'' ''Billing'' ''v1'' ''billing'')) \<noteq> []"
    "\<not> HasSuffix (DisplayName (Properties (apiNamed ''billing'' ''Billing'' ''v1'' ''billing'')))
       (ApiVersion (Properties (apiNamed ''billing'' ''Billing'' ''v1'' ''billing'')))"
    by (simp_all add: apiNamed_def HasSuffix_def)
  have b: "ApiVersion (Properties (apiNamed ''orders-v2'' ''Orders v2'' ''v2'' ''orders'')) \<noteq> []"
    "HasSuffix (DisplayName (Properties (apiNamed ''orders-v2'' ''Orders v2'' ''v2'' ''orders'')))
       (ApiVersion (Properties (apiNamed ''orders-v2'' ''Orders v2'' ''v2'' ''orders'')))"
    "HasSuffix (AzureApi.Name (apiNamed ''orders-v2'' ''Orders v2'' ''v2'' ''orders''))
       (ApiVersion (Properties (apiNamed ''orders-v2'' ''Orders v2'' ''v2'' ''orders'')))"
    by (simp_all add: apiNamed_def HasSuffix_def)
  show ?thesis
    using qualifiedDisplayName_appends_with_space [OF a(1)] a(2)
      qualifiedDisplayName_appends_with_space [OF b(1)] b(2,3)
    by (simp add: apiNamed_def)
qed

section \<open>The claim about missing prerequisites\<close>

text \<open>
  Claim C9, as the code has it. With no token in the flags and none in \<^verbatim>\<open>AZURE_TOKEN\<close>,
  but a client id, a secret and a tenant id in the environment, export sends a token
  request. Counterexample: when that request fails in transport the process ends, and
  when the answer has no access token export returns the empty list after the request.
\<close>

theorem azureExport_token_request_counterexample:
  "Token someFlags = [] \<and>
   azureExport someFlags (credentialsWorld noNet) = Exit \<and>
   azureExport someFlags (credentialsWorld refusingNet) =
     Done ([], (credentialsWorld refusingNet)
                 \<lparr>calls := [HttpPostToken ''id'' ''secret'' ''tenant'']\<rparr>)"
  by (simp add: azureExport_def exportToken_def getAzureToken_def someFlags_def
      credentialsWorld_def emptyWorld_def noNet_def refusingNet_def zeroAzureTokenResponse_def)

text \<open>
  Claim C9, amended. When the subscription, the resource group or the service name is
  empty, or when there is no token in the flags, none in \<^verbatim>\<open>AZURE_TOKEN\<close> and the client
  id, the secret or the tenant id is not set, export returns the empty list and no error
  and leaves the world as it is: no request, no write. When the three identifiers and
  the three credentials are set, there is no token, and the token request is answered
  without an access token, export returns the empty list and no error, and the token
  request is its only call.
\<close>

theorem azureExport_missing_prerequisites:
  "(Subscription flags = [] \<or> ResourceGroup flags = [] \<or> ServiceName flags = [] \<or>
    (Token flags = [] \<and> env w ''AZURE_TOKEN'' = [] \<and>
     (env w ''AZURE_CLIENT_ID'' = [] \<or> env w ''AZURE_CLIENT_SECRET'' = [] \<or>
      env w ''AZURE_TENANT_ID'' = []))
      \<longrightarrow> azureExport flags w = Done ([], w)) \<and>
   (Subscription flags \<noteq> [] \<and> ResourceGroup flags \<noteq> [] \<and> ServiceName flags \<noteq> [] \<and>
    Token flags = [] \<and> env w ''AZURE_TOKEN'' = [] \<and>
    env w ''AZURE_CLIENT_ID'' \<noteq> [] \<and> env w ''AZURE_CLIENT_SECRET'' \<noteq> [] \<and>
    env w ''AZURE_TENANT_ID'' \<noteq> [] \<and>
    postToken (net w) (env w ''AZURE_CLIENT_ID'') (env w ''AZURE_CLIENT_SECRET'')
      (env w ''AZURE_TENANT_ID'') = Resp status (Some azureToken) \<and>
    AccessToken azureToken = []
      \<longrightarrow> azureExport flags w =
            Done ([], w\<lparr>calls := calls w @
              [HttpPostToken (env w ''AZURE_CLIENT_ID'') (env w ''AZURE_CLIENT_SECRET'')
                 (env w ''AZURE_TENANT_ID'')]\<rparr>))"
  by (auto simp: azureExport_def exportToken_def getAzureToken_def Let_def)

theorem azureExport_missing_prerequisites_witness:
  "azureExport (someFlags\<lparr>ServiceName := []\<rparr>) (credentialsWorld noNet) =
     Done ([], credentialsWorld noNet) \<and>
   azureExport someFlags emptyWorld = Done ([], emptyWorld) \<and>
   azureExport someFlags (credentialsWorld refusingNet) =
     Done ([], (credentialsWorld refusingNet)
                 \<lparr>calls := [HttpPostToken ''id'' ''secret'' ''tenant'']\<rparr>)"
  using azureExport_missing_prerequisites
      [of "someFlags\<lparr>ServiceName := []\<rparr>" "credentialsWorld noNet"]
    azureExport_missing_prerequisites [of someFlags emptyWorld]
    azureExport_missing_prerequisites
      [of someFlags "credentialsWorld refusingNet" 401 zeroAzureTokenResponse]
  by (simp add: someFlags_def credentialsWorld_def emptyWorld_def noNet_def refusingNet_def
      zeroAzureTokenResponse_def)

section \<open>The claim about the answer of the web service\<close>

text \<open>
  Claim C10. Whatever the tags of the request, and whatever the operations it calls do
  or return, every answer of a synchronisation request has the result \<open>True\<close> and the
  message that the synchronisation from the one tag to the other was successful. (An
  operation that ends the process leaves no answer.)
\<close>

theorem apimSync_result_true:
  assumes "apimSync ext input w = Done (out, w')"
  shows "Result out \<and>
         Message out =
           ''Sync from '' @ Offramp input @ '' to '' @ Onramp input @ '' successful!''"
  using assms
  by (auto simp: apimSync_def Let_def split: outcome.splits if_splits prod.splits)

theorem apimSync_result_true_witness:
  "apimSync failingExternal \<lparr>Offramp = ''aws'', Onramp = ''apihub''\<rparr> emptyWorld =
     Done (\<lparr>Result = True, Message = ''Sync from aws to apihub successful!''\<rparr>, emptyWorld) \<and>
   Result \<lparr>Result = True, Message = ''Sync from aws to apihub successful!''\<rparr> \<and>
   Message \<lparr>Result = True, Message = ''Sync from aws to apihub successful!''\<rparr> =
     ''Sync from '' @ Offramp \<lparr>Offramp = ''aws'', Onramp = ''apihub''\<rparr> @ '' to '' @
     Onramp \<lparr>Offramp = ''aws'', Onramp = ''apihub''\<rparr> @ '' successful!''"
proof -
  have r: "apimSync failingExternal \<lparr>Offramp = ''aws'', Onramp = ''apihub''\<rparr> emptyWorld =
     Done (\<lparr>Result = True, Message = ''Sync from aws to apihub successful!''\<rparr>, emptyWorld)"
    by (simp add: apimSync_def failingExternal_def emptyWorld_def)
  from apimSync_result_true [OF r] r show ?thesis by blast
qed

section \<open>Facts about the staging area\<close>

lemma qualify_eq: "qualify api = (groupKey api, qualifiedName api, qualifiedApi api)"
  by (simp add: groupKey_def qualifiedName_def qualifiedApi_def)

lemma Open_MkdirAll [simp]: "Open (MkdirAll t d) d' f = Open t d' f"
  by (auto simp: Open_def MkdirAll_def map_add_def split: option.splits)

lemma map_of_MkdirAll [simp]: "map_of (MkdirAll t d) d \<noteq> None"
  by (auto simp: MkdirAll_def map_add_def split: option.splits)

lemma map_of_MkdirAll_keeps: "map_of t d' \<noteq> None \<Longrightarrow> map_of (MkdirAll t d) d' \<noteq> None"
  by (auto simp: MkdirAll_def map_add_def split: option.splits)

lemma Open_WriteFile:
  "Open (WriteFile t d f c) d' f' =
    (if map_of t d \<noteq> None \<and> d' = d \<and> f' = f then Some c else Open t d' f')"
  by (auto simp: Open_def WriteFile_def AList.update_conv' split: option.splits)

lemma map_of_WriteFile_None [simp]:
  "map_of (WriteFile t d f c) d' = None \<longleftrightarrow> map_of t d' = None"
  by (auto simp: WriteFile_def AList.update_conv' split: option.splits)

lemma Open_Nil [simp]: "Open [] d f = None"
  by (simp add: Open_def)

lemma openAzure_mkdirAzure [simp]: "openAzure (mkdirAzure d w) d' f = openAzure w d' f"
  by (cases "azureApiproxies w") (simp_all add: openAzure_def mkdirAzure_def)

lemma hasDir_mkdirAzure [simp]: "hasDir (mkdirAzure d w) d"
  by (simp add: hasDir_def mkdirAzure_def)

lemma hasDir_mkdirAzure_keeps: "hasDir w d' \<Longrightarrow> hasDir (mkdirAzure d w) d'"
  by (cases "azureApiproxies w") (simp_all add: hasDir_def mkdirAzure_def map_of_MkdirAll_keeps)

lemma openAzure_writeAzure:
  "openAzure (writeAzure d f c w) d' f' =
    (if hasDir w d \<and> d' = d \<and> f' = f then Some c else openAzure w d' f')"
  by (auto simp: openAzure_def writeAzure_def hasDir_def Open_WriteFile split: option.splits)

lemma hasDir_writeAzure [simp]: "hasDir (writeAzure d f c w) d' \<longleftrightarrow> hasDir w d'"
  by (simp add: hasDir_def writeAzure_def split: option.splits)

lemma openAzure_calls [simp]: "openAzure (w\<lparr>calls := cs\<rparr>) d f = openAzure w d f"
  by (simp add: openAzure_def)

lemma hasDir_calls [simp]: "hasDir (w\<lparr>calls := cs\<rparr>) d = hasDir w d"
  by (simp add: hasDir_def)

section \<open>Facts about one turn of the loop of export\<close>

lemma getAzureApiSchema_world:
  "snd (getAzureApiSchema s r n a t w) =
     w\<lparr>calls := calls w @ [HttpGetSchema s r n a t]\<rparr>"
  by (simp add: getAzureApiSchema_def Let_def split: HttpResult.splits option.splits prod.splits)

lemma getAzureApiSchema_worldD:
  "getAzureApiSchema s r n a t w = (schema, w') \<Longrightarrow>
     w' = w\<lparr>calls := calls w @ [HttpGetSchema s r n a t]\<rparr>"
  using getAzureApiSchema_world [of s r n a t w] by simp

lemma exportApi_skip:
  assumes "\<not> selected flags api \<or>
    (OnlyNew flags \<and> openAzure w (groupKey api) (qualifiedName api @ ''.json'') \<noteq> None)"
  shows "exportApi flags token (apiNames, w) api = (apiNames, w)"
  using assms
  by (auto simp: exportApi_def qualify_eq qualifiedApi_Name selected_def Let_def)

lemma exportApi_names:
  assumes "selected flags api"
    and "\<not> OnlyNew flags \<or> openAzure w (groupKey api) (qualifiedName api @ ''.json'') = None"
  shows "fst (exportApi flags token (apiNames, w) api) = apiNames @ [qualifiedName api]"
  using assms
  by (auto simp: exportApi_def qualify_eq qualifiedApi_Name selected_def Let_def
      split: prod.splits)


lemma exportApi_stages:
  assumes "selected flags api"
    and "\<not> OnlyNew flags \<or> openAzure w (groupKey api) (qualifiedName api @ ''.json'') = None"
  shows "openAzure (snd (exportApi flags token (apiNames, w) api)) (groupKey api)
           (qualifiedName api @ ''.json'') = Some (ApiJson (qualifiedApi api))"
  using assms
  by (auto simp: exportApi_def qualify_eq qualifiedApi_Name selected_def Let_def
      openAzure_writeAzure dest!: getAzureApiSchema_worldD split: prod.splits)


section \<open>Facts about whole runs of export\<close>

lemma exportApi_env_net:
  "env (snd (exportApi flags token (apiNames, w) api)) = env w \<and>
   net (snd (exportApi flags token (apiNames, w) api)) = net w"
  by (auto simp: exportApi_def qualify_eq Let_def mkdirAzure_def writeAzure_def
      dest!: getAzureApiSchema_worldD split: prod.splits)





lemma exportToken_Done:
  assumes "exportToken flags w = Done (token, w')"
  shows "\<exists>cs. w' = w\<lparr>calls := calls w @ cs\<rparr> \<and> list_all (\<lambda>c. \<not> fetchesOrWrites c) cs"
proof -
  have "w' = w\<lparr>calls := calls w @ []\<rparr> \<or>
        w' = w\<lparr>calls := calls w @ [HttpPostToken (env w ''AZURE_CLIENT_ID'')
               (env w ''AZURE_CLIENT_SECRET'') (env w ''AZURE_TENANT_ID'')]\<rparr>"
    using assms
    by (auto simp: exportToken_def getAzureToken_def Let_def
        split: if_splits HttpResult.splits option.splits)
  then show ?thesis
  proof
    assume "w' = w\<lparr>calls := calls w @ []\<rparr>"
    then have "w' = w\<lparr>calls := calls w @ []\<rparr> \<and> list_all (\<lambda>c. \<not> fetchesOrWrites c) []"
      by simp
    then show ?thesis ..
  next
    assume "w' = w\<lparr>calls := calls w @ [HttpPostToken (env w ''AZURE_CLIENT_ID'')
               (env w ''AZURE_CLIENT_SECRET'') (env w ''AZURE_TENANT_ID'')]\<rparr>"
    then have "w' = w\<lparr>calls := calls w @ [HttpPostToken (env w ''AZURE_CLIENT_ID'')
               (env w ''AZURE_CLIENT_SECRET'') (env w ''AZURE_TENANT_ID'')]\<rparr> \<and>
        list_all (\<lambda>c. \<not> fetchesOrWrites c) [HttpPostToken (env w ''AZURE_CLIENT_ID'')
               (env w ''AZURE_CLIENT_SECRET'') (env w ''AZURE_TENANT_ID'')]"
      by simp
    then show ?thesis ..
  qed
qed

lemma getAzureApis_world:
  "snd (getAzureApis s r n t w) = w\<lparr>calls := calls w @ [HttpGetApis s r n t]\<rparr>"
  by (simp add: getAzureApis_def Let_def split: HttpResult.splits option.splits)

lemma azureExport_listing:
  "azureExport flags w0 =
    (if Subscription flags = [] \<or> ResourceGroup flags = [] \<or> ServiceName flags = []
     then Done ([], w0)
     else
       (case exportToken flags w0 of
          Exit \<Rightarrow> Exit
        | Done (token, w) \<Rightarrow>
            if token = [] then Done ([], w)
            else Done (foldl (exportApi flags token)
                   ([], w\<lparr>calls := calls w @ [HttpGetApis (Subscription flags)
                      (ResourceGroup flags) (ServiceName flags) token]\<rparr>)
                   (listing flags w0))))"
proof (cases "Subscription flags = [] \<or> ResourceGroup flags = [] \<or> ServiceName flags = []")
  case True
  then show ?thesis by (auto simp: azureExport_def)
next
  case ids: False
  show ?thesis
  proof (cases "exportToken flags w0")
    case Exit
    with ids show ?thesis by (simp add: azureExport_def)
  next
    case (Done r)
    obtain token w where r: "r = (token, w)" by (cases r)
    show ?thesis
    proof (cases "token = []")
      case True
      with ids Done r show ?thesis by (simp add: azureExport_def)
    next
      case False
      obtain apis w' where g: "getAzureApis (Subscription flags) (ResourceGroup flags)
          (ServiceName flags) token w = (apis, w')"
        by force
      then have w': "w' = w\<lparr>calls := calls w @ [HttpGetApis (Subscription flags)
                      (ResourceGroup flags) (ServiceName flags) token]\<rparr>"
        using getAzureApis_world [of "Subscription flags" "ResourceGroup flags"
            "ServiceName flags" token w] by simp
      have l: "listing flags w0 = Value apis"
        using ids Done r False g by (simp add: listing_def)
      show ?thesis
        using ids Done r False g w' l by (simp add: azureExport_def)
    qed
  qed
qed


lemma exportToken_env_net:
  assumes "exportToken flags w = Done (t, w')"
  shows "env w' = env w \<and> net w' = net w \<and> azureApiproxies w' = azureApiproxies w"
  using exportToken_Done [OF assms] by auto

lemma fst_getAzureApis:
  "fst (getAzureApis s r n t w) =
    (case getApis (net w) s r n t of
       DoError \<Rightarrow> zeroAzureApis
     | Resp status None \<Rightarrow> zeroAzureApis
     | Resp status (Some apis) \<Rightarrow> apis)"
  by (simp add: getAzureApis_def Let_def split: HttpResult.splits option.splits)




section \<open>Facts about offramp\<close>

lemma canonicalApis_append [simp]:
  "canonicalApis (xs @ ys) = canonicalApis xs @ canonicalApis ys"
  by (induction xs rule: canonicalApis.induct) simp_all










lemma offrampFile_of_api:
  assumes "openAzure w e f = Some (ApiJson a)"
    and "offrampFile u wga flags svc e w f = Done w'"
  shows "canonicalApis (newCalls w w') =
    (if \<not> HasSuffix f ''-oas.json'' \<and> \<not> HasSuffix f ''-oas-definition.json'' \<and>
        AzureApi.Name a \<noteq> []
     then [toGeneralApi flags svc a] else [])"
  using assms
  by (auto simp: offrampFile_def writeGeneral_def Let_def newCalls_def unmarshalAzureApi_def
      split: if_splits option.splits outcome.splits)

section \<open>The claims about offramp\<close>


lemmas export_eval =
  azureExport_def exportToken_def getAzureApis_def getAzureApiSchema_def exportApi_def
  qualify_def selected_def openAzure_def mkdirAzure_def writeAzure_def Open_def MkdirAll_def
  WriteFile_def HasSuffix_def HasPrefix_def matchHere_def apiNamed_def someFlags_def
  emptyWorld_def noNet_def Let_def







section \<open>The claim about the round trip\<close>

text \<open>
  One entry through one turn of each loop: what the body of the loop of export stages,
  and what the body of the inner loop of offramp makes of that file.
\<close>

lemma exportApi_then_offrampFile:
  assumes sel: "selected flags api"
    and new: "\<not> OnlyNew flags \<or>
              openAzure w (groupKey api) (qualifiedName api @ ''.json'') = None"
    and ex: "exportApi flags token (apiNames, w) api = (apiNames', w1)"
    and off: "offrampFile u wga flags' svc (groupKey api) w1 (qualifiedName api @ ''.json'') =
              Done w2"
  shows "apiNames' = apiNames @ [qualifiedName api] \<and>
         openAzure w1 (groupKey api) (qualifiedName api @ ''.json'') =
           Some (ApiJson (qualifiedApi api)) \<and>
         (\<forall>g\<in>set (canonicalApis (newCalls w1 w2)).
            GeneralApi.Name g = qualifiedName api @ ''-azure'' \<and>
            BasePath g = Path (Properties api)) \<and>
         (qualifiedName api \<noteq> [] \<and>
          \<not> HasSuffix (qualifiedName api @ ''.json'') ''-oas.json'' \<and>
          \<not> HasSuffix (qualifiedName api @ ''.json'') ''-oas-definition.json''
            \<longrightarrow> canonicalApis (newCalls w1 w2) \<noteq> [])"
proof -
  have names: "apiNames' = apiNames @ [qualifiedName api]"
    using exportApi_names [OF sel new, of token apiNames] ex by simp
  have staged: "openAzure w1 (groupKey api) (qualifiedName api @ ''.json'') =
      Some (ApiJson (qualifiedApi api))"
    using exportApi_stages [OF sel new, of token apiNames] ex by simp
  have "canonicalApis (newCalls w1 w2) =
    (if \<not> HasSuffix (qualifiedName api @ ''.json'') ''-oas.json'' \<and>
        \<not> HasSuffix (qualifiedName api @ ''.json'') ''-oas-definition.json'' \<and>
        AzureApi.Name (qualifiedApi api) \<noteq> []
     then [toGeneralApi flags' svc (qualifiedApi api)] else [])"
    using staged off by (rule offrampFile_of_api)
  then have "(\<forall>g\<in>set (canonicalApis (newCalls w1 w2)).
            GeneralApi.Name g = qualifiedName api @ ''-azure'' \<and>
            BasePath g = Path (Properties api)) \<and>
         (qualifiedName api \<noteq> [] \<and>
          \<not> HasSuffix (qualifiedName api @ ''.json'') ''-oas.json'' \<and>
          \<not> HasSuffix (qualifiedName api @ ''.json'') ''-oas-definition.json''
            \<longrightarrow> canonicalApis (newCalls w1 w2) \<noteq> [])"
    by (simp add: toGeneralApi_def qualifiedApi_Name qualifiedApi_Path)
  with names staged show ?thesis by simp
qed

text \<open>The same for whole runs of export and of offramp.\<close>

lemma HasPrefix_append [simp]: "HasPrefix (p @ x) p"
  by (simp add: HasPrefix_def)














section \<open>The claims about what export skips\<close>




lemma exportApi_net:
  assumes "getSchema n' = getSchema (net w)"
  shows "exportApi flags token (apiNames, w\<lparr>net := n'\<rparr>) api =
    (case exportApi flags token (apiNames, w) api of (ns, w') \<Rightarrow> (ns, w'\<lparr>net := n'\<rparr>))"
  using assms
  by (simp add: exportApi_def qualify_eq Let_def openAzure_def mkdirAzure_def writeAzure_def
      getAzureApiSchema_def split: HttpResult.splits option.splits prod.splits)

lemma foldl_exportApi_net:
  assumes "getSchema n' = getSchema (net w)"
  shows "foldl (exportApi flags token) (apiNames, w\<lparr>net := n'\<rparr>) apis =
    (case foldl (exportApi flags token) (apiNames, w) apis of (ns, w') \<Rightarrow> (ns, w'\<lparr>net := n'\<rparr>))"
  using assms
proof (induction apis arbitrary: apiNames w)
  case Nil
  show ?case by simp
next
  case (Cons a apis)
  obtain ns w' where e: "exportApi flags token (apiNames, w) a = (ns, w')"
    by force
  then have "net w' = net w"
    using exportApi_env_net [of flags token apiNames w a] by simp
  with Cons.prems have "getSchema n' = getSchema (net w')" by simp
  from Cons.IH [OF this] e exportApi_net [OF Cons.prems, of flags token apiNames a]
  show ?case by simp
qed

lemma exportToken_net:
  assumes "postToken n' = postToken (net w)"
  shows "exportToken flags (w\<lparr>net := n'\<rparr>) =
    (case exportToken flags w of Exit \<Rightarrow> Exit | Done (t, w') \<Rightarrow> Done (t, w'\<lparr>net := n'\<rparr>))"
  using assms
  by (simp add: exportToken_def getAzureToken_def Let_def
      split: HttpResult.splits option.splits)

lemma foldl_exportApi_withoutRevisions:
  "foldl (exportApi flags token) acc (withoutRevisions apis) =
   foldl (exportApi flags token) acc apis"
proof (induction apis arbitrary: acc)
  case Nil
  show ?case by (simp add: withoutRevisions_def)
next
  case (Cons a apis)
  obtain ns w where acc: "acc = (ns, w)" by (cases acc)
  show ?case
  proof (cases "Contains (AzureApi.Name a) '';rev=''")
    case True
    then have "exportApi flags token acc a = acc"
      unfolding acc by (intro exportApi_skip) (simp add: selected_def)
    with True Cons.IH [of acc] show ?thesis
      by (simp add: withoutRevisions_def)
  next
    case False
    with Cons.IH [of "exportApi flags token acc a"] show ?thesis
      by (simp add: withoutRevisions_def)
  qed
qed

lemma listing_hideRevisions:
  "listing flags (w\<lparr>net := hideRevisions (net w)\<rparr>) = withoutRevisions (listing flags w)"
proof (cases "exportToken flags w")
  case Exit
  then show ?thesis
    using exportToken_net [of "hideRevisions (net w)" w flags]
    by (simp add: listing_def hideRevisions_def withoutRevisions_def)
next
  case (Done r)
  obtain t w' where r: "r = (t, w')" by (cases r)
  have "net w' = net w"
    using exportToken_env_net Done r by blast
  then show ?thesis
    using exportToken_net [of "hideRevisions (net w)" w flags] Done r
    by (auto simp: listing_def fst_getAzureApis hideRevisions_def withoutRevisions_def
        zeroAzureApis_def split: HttpResult.splits option.splits)
qed

text \<open>
  Claim C6. Whatever the flags, export does with the listing of the platform what it
  does with that listing without the entries whose name contains \<open>;rev=\<close>: it returns
  the same names, leaves the same files and makes the same calls. What offramp later
  makes of the staging area is then the same as well.
\<close>

theorem revisions_excluded:
  "azureExport flags (w\<lparr>net := hideRevisions (net w)\<rparr>) =
    (case azureExport flags w of
       Exit \<Rightarrow> Exit
     | Done (apiNames, w') \<Rightarrow> Done (apiNames, w'\<lparr>net := hideRevisions (net w)\<rparr>))"
proof (cases "Subscription flags = [] \<or> ResourceGroup flags = [] \<or> ServiceName flags = []")
  case True
  then show ?thesis by (auto simp: azureExport_listing)
next
  case ids: False
  let ?n = "hideRevisions (net w)"
  have tok: "exportToken flags (w\<lparr>net := ?n\<rparr>) =
    (case exportToken flags w of Exit \<Rightarrow> Exit | Done (t, w') \<Rightarrow> Done (t, w'\<lparr>net := ?n\<rparr>))"
    by (rule exportToken_net) (simp add: hideRevisions_def)
  show ?thesis
  proof (cases "exportToken flags w")
    case Exit
    with ids tok show ?thesis by (simp add: azureExport_listing)
  next
    case (Done r)
    obtain token w' where r: "r = (token, w')" by (cases r)
    have net: "net w' = net w"
      using exportToken_env_net Done r by blast
    show ?thesis
    proof (cases "token = []")
      case True
      with ids tok Done r show ?thesis by (simp add: azureExport_listing)
    next
      case False
      let ?c = "HttpGetApis (Subscription flags) (ResourceGroup flags) (ServiceName flags) token"
      let ?w = "w'\<lparr>calls := calls w' @ [?c]\<rparr>"
      have "getSchema ?n = getSchema (net ?w)"
        using net by (simp add: hideRevisions_def)
      then have fold: "foldl (exportApi flags token) ([], ?w\<lparr>net := ?n\<rparr>) (listing flags w) =
        (case foldl (exportApi flags token) ([], ?w) (listing flags w) of
           (ns, w'') \<Rightarrow> (ns, w''\<lparr>net := ?n\<rparr>))"
        by (rule foldl_exportApi_net)
      have start: "(w'\<lparr>net := ?n\<rparr>)\<lparr>calls := calls (w'\<lparr>net := ?n\<rparr>) @ [?c]\<rparr> = ?w\<lparr>net := ?n\<rparr>"
        by simp
      have "azureExport flags (w\<lparr>net := ?n\<rparr>) =
          Done (foldl (exportApi flags token)
            ([], (w'\<lparr>net := ?n\<rparr>)\<lparr>calls := calls (w'\<lparr>net := ?n\<rparr>) @ [?c]\<rparr>)
            (listing flags (w\<lparr>net := ?n\<rparr>)))"
        using ids tok Done r False by (simp add: azureExport_listing [of flags "w\<lparr>net := ?n\<rparr>"])
      also have "\<dots> = Done (foldl (exportApi flags token) ([], ?w\<lparr>net := ?n\<rparr>) (listing flags w))"
        unfolding start listing_hideRevisions foldl_exportApi_withoutRevisions ..
      also have "\<dots> = Done (case foldl (exportApi flags token) ([], ?w) (listing flags w) of
           (ns, w'') \<Rightarrow> (ns, w''\<lparr>net := ?n\<rparr>))"
        unfolding fold ..
      also have "\<dots> = (case azureExport flags w of
           Exit \<Rightarrow> Exit
         | Done (apiNames, w'') \<Rightarrow> Done (apiNames, w''\<lparr>net := ?n\<rparr>))"
        using ids Done r False by (simp add: azureExport_listing [of flags w] split: prod.splits)
      finally show ?thesis .
    qed
  qed
qed


theorem revisions_excluded_witness:
  "azureExport revisionFlags
     (emptyWorld\<lparr>net := listingNet [apiNamed ''billing'' ''Billing'' ''v1'' ''billing'',
        apiNamed ''billing;rev=2'' ''Billing'' ''v1'' ''billing'']\<rparr>) =
     Done ([], emptyWorld
       \<lparr>net := listingNet [apiNamed ''billing'' ''Billing'' ''v1'' ''billing'',
          apiNamed ''billing;rev=2'' ''Billing'' ''v1'' ''billing''],
        calls := [HttpGetApis ''sub'' ''rg'' ''svc'' ''token'']\<rparr>) \<and>
   azureExport revisionFlags
     (emptyWorld\<lparr>net := hideRevisions (listingNet
        [apiNamed ''billing'' ''Billing'' ''v1'' ''billing'',
         apiNamed ''billing;rev=2'' ''Billing'' ''v1'' ''billing''])\<rparr>) =
     Done ([], emptyWorld
       \<lparr>net := hideRevisions (listingNet
          [apiNamed ''billing'' ''Billing'' ''v1'' ''billing'',
           apiNamed ''billing;rev=2'' ''Billing'' ''v1'' ''billing'']),
        calls := [HttpGetApis ''sub'' ''rg'' ''svc'' ''token'']\<rparr>)"
proof -
  let ?n = "listingNet [apiNamed ''billing'' ''Billing'' ''v1'' ''billing'',
        apiNamed ''billing;rev=2'' ''Billing'' ''v1'' ''billing'']"
  have run: "azureExport revisionFlags (emptyWorld\<lparr>net := ?n\<rparr>) =
     Done ([], emptyWorld\<lparr>net := ?n, calls := [HttpGetApis ''sub'' ''rg'' ''svc'' ''token'']\<rparr>)"
    by (simp add: export_eval revisionFlags_def listingNet_def)
  from revisions_excluded [of revisionFlags "emptyWorld\<lparr>net := ?n\<rparr>"] run
  show ?thesis by simp
qed

end
